theory Spec2Isabelle
  imports Complex_Main
begin

section \<open>Data model\<close>

text \<open>
  The repository holds three variants of one React cart provider: an in-memory one
  (the context variant), one persisting to IndexedDB (the IndexedDB variant) and one
  combining localStorage, a debounced IndexedDB write and a BroadcastChannel (the hybrid
  variant). A JavaScript number is modelled as an exact rational: no rounding, no NaN,
  no Infinity. A catalogue entry is an object with the fields \<open>id\<close>, \<open>name\<close> and
  \<open>price\<close>; a cart line is the same object with a \<open>quantity\<close>. The field \<open>id\<close> is
  called \<open>item_id\<close> here, since \<open>id\<close> is the identity function of HOL.
\<close>

type_synonym number = rat

record product =
  item_id :: number
  name :: string
  price :: number

record line_item = product +
  quantity :: number

type_synonym snapshot = "line_item list"

section \<open>The context variant: pure snapshot functions\<close>

text \<open>
  \<open>{ ...product, quantity: 1 }\<close>: every field of the product, and a quantity.
\<close>

definition with_quantity :: "product \<Rightarrow> number \<Rightarrow> line_item" where
  "with_quantity product q =
     \<lparr>item_id = item_id product, name = name product, price = price product, quantity = q\<rparr>"


definition ctx_updateQuantity :: "number \<Rightarrow> number \<Rightarrow> snapshot \<Rightarrow> snapshot" where
  "ctx_updateQuantity productId q prev =
     (if q < 1 then prev
      else map (\<lambda>item. if item_id item = productId then item\<lparr>quantity := q\<rparr> else item) prev)"


text \<open>\<open>items.reduce((sum, item) => sum + (item.price * item.quantity), 0)\<close>\<close>

definition total :: "snapshot \<Rightarrow> number" where
  "total cart = foldl (\<lambda>sum item. sum + price item * quantity item) 0 cart"

section \<open>JSON text, messages, observable effects\<close>

text \<open>
  \<open>JSON.stringify\<close> and \<open>JSON.parse\<close> are library functions. A JSON text is modelled by the
  document it denotes; over exact numbers the text is determined by the document and
  the document by the text, so comparing two texts is comparing two documents. A line
  item is written with its keys in the order the object literals of the source create
  them: \<open>id\<close>, \<open>name\<close>, \<open>price\<close>, \<open>quantity\<close>.
\<close>

datatype json = JNum number | JStr string | JArr "json list" | JObj "(string \<times> json) list"

definition stringify_item :: "line_item \<Rightarrow> json" where
  "stringify_item item =
     JObj [(''id'', JNum (item_id item)), (''name'', JStr (name item)),
           (''price'', JNum (price item)), (''quantity'', JNum (quantity item))]"

definition JSON_stringify :: "snapshot \<Rightarrow> json" where
  "JSON_stringify cart = JArr (map stringify_item cart)"

text \<open>
  \<open>JSON.parse\<close>, read at the type of a snapshot. \<open>None\<close> stands for a text on which
  \<open>JSON.parse\<close> throws; a text that parses to something else than a sequence of line
  items has no counterpart in the typed state and is put in this case too.
\<close>

definition parse_item :: "json \<Rightarrow> line_item option" where
  "parse_item j =
     (case j of
        JObj [(k1, JNum i), (k2, JStr n), (k3, JNum p), (k4, JNum q)] \<Rightarrow>
          if k1 = ''id'' \<and> k2 = ''name'' \<and> k3 = ''price'' \<and> k4 = ''quantity''
          then Some \<lparr>item_id = i, name = n, price = p, quantity = q\<rparr> else None
      | _ \<Rightarrow> None)"

definition JSON_parse :: "json \<Rightarrow> snapshot option" where
  "JSON_parse j = (case j of JArr js \<Rightarrow> those (map parse_item js) | _ \<Rightarrow> None)"

text \<open>
  The payload of a BroadcastChannel message of the hybrid variant,
  \<open>{ type: 'CART_UPDATED', items: newItems }\<close>. The IndexedDB variant posts the bare
  \<open>{ type: 'CART_UPDATED' }\<close>, recorded as \<open>PostedSignal\<close>.
\<close>

record message =
  msg_type :: string
  msg_items :: snapshot

text \<open>
  What a provider does to the world outside its React state, in the order it does it:
  a request on the object store (with its outcome), a posted message, a line on the
  console.
\<close>

datatype durable_op = PutAll snapshot | Put line_item | Delete number | Clear

datatype effect =
    Durable durable_op bool
  | Posted message
  | PostedSignal string
  | ConsoleError string

definition durable_writes :: "effect list \<Rightarrow> (durable_op \<times> bool) list" where
  "durable_writes tr = concat (map (\<lambda>e. case e of Durable w ok \<Rightarrow> [(w, ok)] | _ \<Rightarrow> []) tr)"

definition notifications :: "effect list \<Rightarrow> effect list" where
  "notifications tr =
     filter (\<lambda>e. case e of Posted m \<Rightarrow> True | PostedSignal t \<Rightarrow> True | _ \<Rightarrow> False) tr"

section \<open>The object store\<close>

text \<open>
  The object store \<open>cart\<close> has the key path \<open>id\<close>. Its records are kept as a list;
  \<open>getAll\<close> returns them in ascending key order, \<open>put\<close> replaces the record of the same
  key, \<open>add\<close> fails on a key that is present. A request of a transaction that fails
  aborts the transaction (no handler of the source cancels the error event), so a
  failed transaction leaves the store as it was.
\<close>

definition store_getAll :: "snapshot \<Rightarrow> snapshot" where
  "store_getAll st = sort_key item_id st"

definition store_put :: "line_item \<Rightarrow> snapshot \<Rightarrow> snapshot" where
  "store_put item st = filter (\<lambda>r. item_id r \<noteq> item_id item) st @ [item]"

definition store_delete :: "number \<Rightarrow> snapshot \<Rightarrow> snapshot" where
  "store_delete k st = filter (\<lambda>r. item_id r \<noteq> k) st"

text \<open>\<open>store.clear()\<close> followed by \<open>store.add(item)\<close> for each item, in one transaction.\<close>

fun store_addAll :: "snapshot \<Rightarrow> snapshot \<Rightarrow> snapshot option" where
  "store_addAll [] st = Some st"
| "store_addAll (item # rest) st =
     (if item_id item \<in> set (map item_id st) then None
      else store_addAll rest (st @ [item]))"

section \<open>The hybrid variant\<close>

record timer =
  timer_id :: nat
  deadline :: nat
  newItems :: snapshot

text \<open>
  The state of one mounted \<open>CartProvider\<close> and of the browser around it: the React state
  (\<open>items\<close>, \<open>loading\<close>), the refs (\<open>dbRef.current\<close> is set or null, \<open>syncTimeoutRef.current\<close>
  is a timer handle or null), the localStorage slot \<open>shopping-cart\<close>, the records of the
  object store, whether requests on the store succeed (the environment decides),
  the timers \<open>setTimeout\<close> has registered and that neither fired nor were cleared (each
  with the \<open>newItems\<close> its callback closes over), the next timer handle, the clock in
  milliseconds, and the effects so far.
\<close>

record hybrid_state =
  items :: snapshot
  loading :: bool
  dbRef :: bool
  syncTimeoutRef :: "nat option"
  localStorage :: "json option"
  cart_store :: snapshot
  store_ok :: bool
  timers :: "timer list"
  next_timer :: nat
  clock :: nat
  trace :: "effect list"

definition mounted :: "json option \<Rightarrow> snapshot \<Rightarrow> bool \<Rightarrow> hybrid_state" where
  "mounted ls st ok =
     \<lparr>items = [], loading = True, dbRef = False, syncTimeoutRef = None, localStorage = ls,
      cart_store = st, store_ok = ok, timers = [], next_timer = 1, clock = 0, trace = []\<rparr>"

definition log_effect :: "effect \<Rightarrow> hybrid_state \<Rightarrow> hybrid_state" where
  "log_effect e s = s\<lparr>trace := trace s @ [e]\<rparr>"

text \<open>The first effect of \<open>CartProvider\<close>: the synchronous read of localStorage.\<close>

definition load_localStorage :: "hybrid_state \<Rightarrow> hybrid_state" where
  "load_localStorage s =
     (case localStorage s of
        None \<Rightarrow> s
      | Some stored \<Rightarrow>
          (case JSON_parse stored of
             Some cart \<Rightarrow> s\<lparr>items := cart\<rparr>
           | None \<Rightarrow> log_effect (ConsoleError ''Failed to parse localStorage data:'') s))"

text \<open>
  \<open>init\<close>: \<open>initDB\<close> resolves or rejects (\<open>open_ok\<close>); when it resolves, \<open>dbRef.current\<close> is
  set and \<open>getAll\<close> is requested. Only \<open>onsuccess\<close> of that request has a handler.
\<close>

definition getAll_onsuccess :: "snapshot \<Rightarrow> hybrid_state \<Rightarrow> hybrid_state" where
  "getAll_onsuccess result s =
     (let s1 = (if length result > 0
                then s\<lparr>items := result, localStorage := Some (JSON_stringify result)\<rparr>
                else s)
      in s1\<lparr>loading := False\<rparr>)"

definition init :: "bool \<Rightarrow> hybrid_state \<Rightarrow> hybrid_state" where
  "init open_ok s =
     (if open_ok then
        (let s1 = s\<lparr>dbRef := True\<rparr>
         in if store_ok s1 then getAll_onsuccess (store_getAll (cart_store s1)) s1 else s1)
      else (log_effect (ConsoleError ''Failed to initialize DB:'') s)\<lparr>loading := False\<rparr>)"



definition notifyOtherTabs :: "snapshot \<Rightarrow> hybrid_state \<Rightarrow> hybrid_state" where
  "notifyOtherTabs cart s = log_effect (Posted \<lparr>msg_type = ''CART_UPDATED'', msg_items = cart\<rparr>) s"

definition clearTimeout :: "nat \<Rightarrow> hybrid_state \<Rightarrow> hybrid_state" where
  "clearTimeout h s = s\<lparr>timers := filter (\<lambda>t. timer_id t \<noteq> h) (timers s)\<rparr>"

text \<open>
  \<open>syncToIndexedDB\<close>: clear the timer the ref names, register a new one firing 1000 ms
  from now, keep its handle in the ref. Handles are positive, hence truthy.
\<close>

definition syncToIndexedDB :: "snapshot \<Rightarrow> hybrid_state \<Rightarrow> hybrid_state" where
  "syncToIndexedDB cart s =
     (let s1 = (case syncTimeoutRef s of Some h \<Rightarrow> clearTimeout h s | None \<Rightarrow> s);
          h = next_timer s1
      in s1\<lparr>timers := timers s1 @ [\<lparr>timer_id = h, deadline = clock s1 + 1000, newItems = cart\<rparr>],
            next_timer := Suc h,
            syncTimeoutRef := Some h\<rparr>)"

text \<open>The callback of that timer.\<close>

definition sync_callback :: "snapshot \<Rightarrow> hybrid_state \<Rightarrow> hybrid_state" where
  "sync_callback cart s =
     (if \<not> dbRef s then s
      else (case (if store_ok s then store_addAll cart [] else None) of
              Some st \<Rightarrow> log_effect (Durable (PutAll cart) True) (s\<lparr>cart_store := st\<rparr>)
            | None \<Rightarrow> log_effect (ConsoleError ''Failed to sync with IndexedDB:'')
                        (log_effect (Durable (PutAll cart) False) s)))"

definition updateStorage :: "snapshot \<Rightarrow> hybrid_state \<Rightarrow> hybrid_state" where
  "updateStorage cart s =
     notifyOtherTabs cart
       (syncToIndexedDB cart (s\<lparr>localStorage := Some (JSON_stringify cart)\<rparr>))"

definition addItem :: "product \<Rightarrow> hybrid_state \<Rightarrow> hybrid_state" where
  "addItem product s =
     (let prev = items s;
          existingItem = find (\<lambda>item. item_id item = item_id product) prev;
          cart = (case existingItem of
                    Some e \<Rightarrow>
                      map (\<lambda>item. if item_id item = item_id product
                                   then item\<lparr>quantity := quantity item + 1\<rparr> else item) prev
                  | None \<Rightarrow> prev @ [with_quantity product 1])
      in (updateStorage cart s)\<lparr>items := cart\<rparr>)"

definition updateQuantity :: "number \<Rightarrow> number \<Rightarrow> hybrid_state \<Rightarrow> hybrid_state" where
  "updateQuantity productId q s =
     (if q < 1 then s
      else (let prev = items s;
                cart = map (\<lambda>item. if item_id item = productId
                                    then item\<lparr>quantity := q\<rparr> else item) prev
            in (updateStorage cart s)\<lparr>items := cart\<rparr>))"

definition removeItem :: "number \<Rightarrow> hybrid_state \<Rightarrow> hybrid_state" where
  "removeItem productId s =
     (let prev = items s;
          cart = filter (\<lambda>item. item_id item \<noteq> productId) prev
      in (updateStorage cart s)\<lparr>items := cart\<rparr>)"

definition clearCart :: "hybrid_state \<Rightarrow> hybrid_state" where
  "clearCart s =
     (let s1 = s\<lparr>items := []\<rparr>;
          s2 = s1\<lparr>localStorage := None\<rparr>;
          s3 = (if dbRef s2 then
                  (if store_ok s2 then log_effect (Durable Clear True) (s2\<lparr>cart_store := []\<rparr>)
                   else log_effect (Durable Clear False) s2)
                else s2)
      in notifyOtherTabs [] s3)"

text \<open>
  Time passes: the clock moves on by \<open>d\<close> milliseconds and the timers that are due by
  then run, in the order they were registered (all have the same delay).
\<close>

definition advance :: "nat \<Rightarrow> hybrid_state \<Rightarrow> hybrid_state" where
  "advance d s =
     (let t = clock s + d;
          due = filter (\<lambda>tm. deadline tm \<le> t) (timers s);
          s1 = s\<lparr>timers := filter (\<lambda>tm. \<not> deadline tm \<le> t) (timers s)\<rparr>
      in (foldl (\<lambda>st tm. sync_callback (newItems tm) st) s1 due)\<lparr>clock := t\<rparr>)"

datatype call = AddItem product | UpdateQuantity number number | RemoveItem number | ClearCart

fun apply_call :: "call \<Rightarrow> hybrid_state \<Rightarrow> hybrid_state" where
  "apply_call (AddItem product) s = addItem product s"
| "apply_call (UpdateQuantity productId q) s = updateQuantity productId q s"
| "apply_call (RemoveItem productId) s = removeItem productId s"
| "apply_call ClearCart s = clearCart s"

text \<open>A schedule: each call with the time that passes before it.\<close>

fun run :: "(nat \<times> call) list \<Rightarrow> hybrid_state \<Rightarrow> hybrid_state" where
  "run [] s = s"
| "run ((d, c) # rest) s = run rest (apply_call c (advance d s))"

section \<open>The IndexedDB variant\<close>

text \<open>
  The provider of the IndexedDB variant: the React state (\<open>items\<close>, \<open>loading\<close>, \<open>db\<close> set or
  null), the records of the object store of \<open>ShoppingCartDB\<close>, whether requests on it
  succeed, and the effects so far. Every mutation is an \<open>async\<close> function: it commits to
  the React state, awaits one request and then posts or rolls back. A function below
  is one such call run to its end with no other update of the state in between, so the
  \<open>items\<close> of its closure and the \<open>prev\<close> of its first \<open>setItems\<close> are the same list.
\<close>

record idb_state =
  idb_items :: snapshot
  idb_loading :: bool
  db :: bool
  db_store :: snapshot
  db_ok :: bool
  idb_trace :: "effect list"

definition idb_log :: "effect \<Rightarrow> idb_state \<Rightarrow> idb_state" where
  "idb_log e s = s\<lparr>idb_trace := idb_trace s @ [e]\<rparr>"

definition idb_notifyOtherTabs :: "idb_state \<Rightarrow> idb_state" where
  "idb_notifyOtherTabs s = idb_log (PostedSignal ''CART_UPDATED'') s"

definition idb_mounted :: "snapshot \<Rightarrow> bool \<Rightarrow> idb_state" where
  "idb_mounted st ok =
     \<lparr>idb_items = [], idb_loading = True, db = False, db_store = st, db_ok = ok, idb_trace = []\<rparr>"

definition idb_init :: "bool \<Rightarrow> idb_state \<Rightarrow> idb_state" where
  "idb_init open_ok s =
     (if open_ok then
        (let s1 = s\<lparr>db := True\<rparr>
         in if db_ok s1 then s1\<lparr>idb_items := store_getAll (db_store s1), idb_loading := False\<rparr>
            else s1)
      else (idb_log (ConsoleError ''Failed to initialize DB:'') s)\<lparr>idb_loading := False\<rparr>)"

definition idb_handleMessage :: "string \<Rightarrow> idb_state \<Rightarrow> idb_state" where
  "idb_handleMessage ty s =
     (if ty = ''CART_UPDATED'' \<and> db s then
        (if db_ok s then s\<lparr>idb_items := store_getAll (db_store s)\<rparr> else s)
      else s)"

definition idb_addItem :: "product \<Rightarrow> idb_state \<Rightarrow> idb_state" where
  "idb_addItem product s =
     (if \<not> db s then s
      else
        (let existingItem = find (\<lambda>item. item_id item = item_id product) (idb_items s);
             newItem = (case existingItem of
                          Some e \<Rightarrow> e\<lparr>quantity := quantity e + 1\<rparr>
                        | None \<Rightarrow> with_quantity product 1);
             s1 = s\<lparr>idb_items :=
                     (case existingItem of
                        Some e \<Rightarrow> map (\<lambda>item. if item_id item = item_id product
                                              then newItem else item) (idb_items s)
                      | None \<Rightarrow> idb_items s @ [newItem])\<rparr>
         in if db_ok s1 then
              idb_notifyOtherTabs
                (idb_log (Durable (Put newItem) True)
                   (s1\<lparr>db_store := store_put newItem (db_store s1)\<rparr>))
            else
              (let s2 = idb_log (ConsoleError ''Failed to add item:'')
                          (idb_log (Durable (Put newItem) False) s1)
               in s2\<lparr>idb_items :=
                       (case existingItem of
                          Some e \<Rightarrow> idb_items s2
                        | None \<Rightarrow> filter (\<lambda>item. item_id item \<noteq> item_id product)
                                    (idb_items s2))\<rparr>)))"

definition idb_updateQuantity :: "number \<Rightarrow> number \<Rightarrow> idb_state \<Rightarrow> idb_state" where
  "idb_updateQuantity productId q s =
     (if \<not> db s \<or> q < 1 then s
      else
        (case find (\<lambda>item. item_id item = productId) (idb_items s) of
           None \<Rightarrow> s
         | Some item0 \<Rightarrow>
             (let updatedItem = item0\<lparr>quantity := q\<rparr>;
                  s1 = s\<lparr>idb_items := map (\<lambda>item. if item_id item = productId
                                                 then updatedItem else item) (idb_items s)\<rparr>
              in if db_ok s1 then
                   idb_notifyOtherTabs
                     (idb_log (Durable (Put updatedItem) True)
                        (s1\<lparr>db_store := store_put updatedItem (db_store s1)\<rparr>))
                 else
                   (let s2 = idb_log (ConsoleError ''Failed to update quantity:'')
                               (idb_log (Durable (Put updatedItem) False) s1)
                    in s2\<lparr>idb_items :=
                            map (\<lambda>item. if item_id item = productId
                                        then item\<lparr>quantity := quantity item\<rparr> else item)
                                (idb_items s2)\<rparr>))))"

definition idb_removeItem :: "number \<Rightarrow> idb_state \<Rightarrow> idb_state" where
  "idb_removeItem productId s =
     (if \<not> db s then s
      else
        (let removedItem = find (\<lambda>item. item_id item = productId) (idb_items s);
             s1 = s\<lparr>idb_items := filter (\<lambda>item. item_id item \<noteq> productId) (idb_items s)\<rparr>
         in if db_ok s1 then
              idb_notifyOtherTabs
                (idb_log (Durable (Delete productId) True)
                   (s1\<lparr>db_store := store_delete productId (db_store s1)\<rparr>))
            else
              (let s2 = idb_log (ConsoleError ''Failed to remove item:'')
                          (idb_log (Durable (Delete productId) False) s1)
               in (case removedItem of
                     Some r \<Rightarrow> s2\<lparr>idb_items := idb_items s2 @ [r]\<rparr>
                   | None \<Rightarrow> s2))))"

definition idb_clearCart :: "idb_state \<Rightarrow> idb_state" where
  "idb_clearCart s =
     (if \<not> db s then s
      else
        (let oldItems = idb_items s;
             s1 = s\<lparr>idb_items := []\<rparr>
         in if db_ok s1 then
              idb_notifyOtherTabs (idb_log (Durable Clear True) (s1\<lparr>db_store := []\<rparr>))
            else
              (let s2 = idb_log (ConsoleError ''Failed to clear cart:'')
                          (idb_log (Durable Clear False) s1)
               in s2\<lparr>idb_items := oldItems\<rparr>)))"

fun idb_apply_call :: "call \<Rightarrow> idb_state \<Rightarrow> idb_state" where
  "idb_apply_call (AddItem product) s = idb_addItem product s"
| "idb_apply_call (UpdateQuantity productId q) s = idb_updateQuantity productId q s"
| "idb_apply_call (RemoveItem productId) s = idb_removeItem productId s"
| "idb_apply_call ClearCart s = idb_clearCart s"

section \<open>Notions of the specification\<close>




text \<open>
  The calls that go through \<open>updateStorage\<close>, and so through the debounce:
  \<open>updateQuantity\<close> returns before it when \<open>q < 1\<close>, \<open>clearCart\<close> does not use it.
\<close>

fun debounced :: "call \<Rightarrow> bool" where
  "debounced (AddItem product) = True"
| "debounced (UpdateQuantity productId q) = (1 \<le> q)"
| "debounced (RemoveItem productId) = True"
| "debounced ClearCart = False"

text \<open>
  One write is pending: the timer the ref names is the only one registered, it fires
  1000 ms from now and carries the current snapshot.
\<close>

definition pending_write :: "hybrid_state \<Rightarrow> bool" where
  "pending_write s =
     (case syncTimeoutRef s of
        None \<Rightarrow> False
      | Some h \<Rightarrow>
          timers s = [\<lparr>timer_id = h, deadline = clock s + 1000, newItems = items s\<rparr>])"

text \<open>No timer is registered, or one is and the ref names it.\<close>

definition timer_inv :: "hybrid_state \<Rightarrow> bool" where
  "timer_inv s = (timers s = [] \<or> map (\<lambda>tm. Some (timer_id tm)) (timers s) = [syncTimeoutRef s])"

text \<open>The effects one call adds to the trace.\<close>

definition new_effects :: "call \<Rightarrow> hybrid_state \<Rightarrow> effect list" where
  "new_effects c s = drop (length (trace s)) (trace (apply_call c s))"

definition idb_new_effects :: "call \<Rightarrow> idb_state \<Rightarrow> effect list" where
  "idb_new_effects c t = drop (length (idb_trace t)) (idb_trace (idb_apply_call c t))"

section \<open>Sample data\<close>

text \<open>The entries of \<open>SAMPLE_PRODUCTS\<close>.\<close>

definition laptop :: product where
  "laptop = \<lparr>item_id = 1, name = ''Laptop'', price = 999\<rparr>"

definition smartphone :: product where
  "smartphone = \<lparr>item_id = 2, name = ''Smartphone'', price = 699\<rparr>"

definition headphones :: product where
  "headphones = \<lparr>item_id = 3, name = ''Headphones'', price = 199\<rparr>"

section \<open>Lists\<close>

lemma find_absent: "\<forall>x\<in>set xs. \<not> P x \<Longrightarrow> find P xs = None"
  by (simp add: find_None_iff)


lemma map_untouched:
  "\<forall>x\<in>set xs. \<not> P x \<Longrightarrow> map (\<lambda>x. if P x then f x else x) xs = xs"
  by (induction xs) auto

section \<open>The hybrid variant computes the snapshots of the context variant\<close>

lemma items_log_effect [simp]: "items (log_effect e s) = items s"
  by (simp add: log_effect_def)

lemma items_updateStorage [simp]: "items (updateStorage cart s) = items s"
  by (simp add: updateStorage_def notifyOtherTabs_def syncToIndexedDB_def clearTimeout_def Let_def
      split: option.split)


lemma items_updateQuantity: "items (updateQuantity k q s) = ctx_updateQuantity k q (items s)"
  by (simp add: updateQuantity_def ctx_updateQuantity_def Let_def)



section \<open>Adding the same product again and again\<close>







section \<open>The total\<close>

lemma foldl_total: "foldl (\<lambda>sum item. sum + price item * quantity item) a cart
   = a + (\<Sum>item\<leftarrow>cart. price item * quantity item)"
  by (induction cart arbitrary: a) (simp_all add: add.assoc)

lemma total_sum: "total cart = (\<Sum>item\<leftarrow>cart. price item * quantity item)"
  by (simp add: total_def foldl_total)






lemma items_sync_callback [simp]: "items (sync_callback cart s) = items s"
  by (simp add: sync_callback_def split: option.split)

lemma items_foldl_sync [simp]:
  "items (foldl (\<lambda>st tm. sync_callback (newItems tm) st) s due) = items s"
  by (induction due arbitrary: s) simp_all

lemma items_advance [simp]: "items (advance d s) = items s"
  by (simp add: advance_def Let_def)





section \<open>Overwriting a quantity\<close>

lemma ctx_updateQuantity_rejected: "q < 1 \<Longrightarrow> ctx_updateQuantity k q prev = prev"
  by (simp add: ctx_updateQuantity_def)

lemma ctx_updateQuantity_absent:
  "k \<notin> item_id ` set prev \<Longrightarrow> ctx_updateQuantity k q prev = prev"
  by (auto simp: ctx_updateQuantity_def intro!: map_untouched)

lemma ctx_updateQuantity_ids: "map item_id (ctx_updateQuantity k q prev) = map item_id prev"
  by (simp add: ctx_updateQuantity_def)

lemma ctx_updateQuantity_nth:
  "1 \<le> q \<Longrightarrow> i < length prev \<Longrightarrow>
   ctx_updateQuantity k q prev ! i =
     (if item_id (prev ! i) = k then (prev ! i)\<lparr>quantity := q\<rparr> else prev ! i)"
  by (simp add: ctx_updateQuantity_def)

lemma updateQuantity_rejected: "q < 1 \<Longrightarrow> updateQuantity k q s = s"
  by (simp add: updateQuantity_def)

lemma find_Some_first_distinct:
  "distinct (map f xs) \<Longrightarrow> find (\<lambda>x. f x = k) xs = Some y \<Longrightarrow> x \<in> set xs \<Longrightarrow> f x = k \<Longrightarrow> x = y"
  by (induction xs) (auto split: if_splits simp: find_Some_iff  dest: )

lemma idb_updateQuantity_items:
  assumes "db s" and "distinct (map item_id (idb_items s))"
  shows "idb_items (idb_updateQuantity k q s) = ctx_updateQuantity k q (idb_items s)"
proof (cases "q < 1")
  case True
  then show ?thesis by (simp add: idb_updateQuantity_def ctx_updateQuantity_def)
next
  case False
  show ?thesis
  proof (cases "find (\<lambda>item. item_id item = k) (idb_items s)")
    case None
    then have "k \<notin> item_id ` set (idb_items s)" by (auto simp: find_None_iff)
    then have "ctx_updateQuantity k q (idb_items s) = idb_items s"
      by (rule ctx_updateQuantity_absent)
    then show ?thesis using None False assms(1) by (simp add: idb_updateQuantity_def)
  next
    case (Some y)
    have same: "map (\<lambda>item. if item_id item = k then y\<lparr>quantity := q\<rparr> else item) (idb_items s)
        = map (\<lambda>item. if item_id item = k then item\<lparr>quantity := q\<rparr> else item) (idb_items s)"
      using find_Some_first_distinct [OF assms(2) Some] by (intro map_cong) auto
    have idem: "\<And>xs. map (\<lambda>item. if item_id item = k then item\<lparr>quantity := quantity item\<rparr> else item) xs = (xs :: snapshot)"
      by (induct_tac xs) auto
    show ?thesis using Some False assms(1) same
      by (simp add: idb_updateQuantity_def ctx_updateQuantity_def Let_def idb_log_def
          idb_notifyOtherTabs_def idem)
  qed
qed

lemma idb_updateQuantity_closed:
  "idb_items s = [] \<Longrightarrow>
   idb_items (idb_updateQuantity k q s) = ctx_updateQuantity k q (idb_items s)"
  by (simp add: idb_updateQuantity_def ctx_updateQuantity_def)

text \<open>
  In the IndexedDB variant the snapshot is empty as long as \<open>db\<close> is null: every
  function that fills it needs the database.
\<close>

lemma idb_unopened_mounted: "db (idb_mounted st ok) \<or> idb_items (idb_mounted st ok) = []"
  by (simp add: idb_mounted_def)

lemma idb_unopened_init:
  "db t \<or> idb_items t = [] \<Longrightarrow> db (idb_init b t) \<or> idb_items (idb_init b t) = []"
  by (auto simp: idb_init_def idb_log_def Let_def)

lemma idb_unopened_handleMessage:
  "db t \<or> idb_items t = [] \<Longrightarrow>
   db (idb_handleMessage ty t) \<or> idb_items (idb_handleMessage ty t) = []"
  by (auto simp: idb_handleMessage_def)

lemma idb_db_apply_call: "db t \<Longrightarrow> db (idb_apply_call c t)"
  by (cases c)
     (auto simp: idb_addItem_def idb_updateQuantity_def idb_removeItem_def idb_clearCart_def
        idb_notifyOtherTabs_def idb_log_def Let_def split: option.splits)

lemma idb_unopened_apply_call:
  "db t \<or> idb_items t = [] \<Longrightarrow>
   db (idb_apply_call c t) \<or> idb_items (idb_apply_call c t) = []"
proof (cases "db t")
  case True
  then show ?thesis by (simp add: idb_db_apply_call)
next
  case False
  assume "db t \<or> idb_items t = []"
  with False have "idb_items t = []" by simp
  moreover from False have "idb_apply_call c t = t"
    by (cases c)
       (simp_all add: idb_addItem_def idb_updateQuantity_def idb_removeItem_def idb_clearCart_def)
  ultimately show ?thesis by simp
qed

text \<open>
  C7. \<open>updateQuantity(id, q)\<close> of the hybrid variant changes nothing at all when
  \<open>q < 1\<close>, and leaves the snapshot as it is when no item has the id. It never changes
  the ids of the snapshot or their order, so no item is removed. For \<open>q \<ge> 1\<close> the item
  at each position is the old one, with its quantity set to \<open>q\<close> if it has the id. The
  updater of the context variant computes the same snapshot, and so does the IndexedDB
  variant on a snapshot with unique ids (its database open, or its snapshot still empty).
\<close>

theorem updateQuantity_spec:
  "(q < 1 \<longrightarrow> updateQuantity k q s = s)
 \<and> (k \<notin> item_id ` set (items s) \<longrightarrow> items (updateQuantity k q s) = items s)
 \<and> map item_id (items (updateQuantity k q s)) = map item_id (items s)
 \<and> (1 \<le> q \<longrightarrow> (\<forall>i < length (items s).
        items (updateQuantity k q s) ! i =
          (if item_id (items s ! i) = k then (items s ! i)\<lparr>quantity := q\<rparr> else items s ! i)))
 \<and> items (updateQuantity k q s) = ctx_updateQuantity k q (items s)
 \<and> ((db t \<or> idb_items t = []) \<and> distinct (map item_id (idb_items t)) \<longrightarrow>
        idb_items (idb_updateQuantity k q t) = ctx_updateQuantity k q (idb_items t))"
  using idb_updateQuantity_items [of t k q] idb_updateQuantity_closed [of t k q]
  by (auto simp add: updateQuantity_rejected items_updateQuantity ctx_updateQuantity_absent
      ctx_updateQuantity_ids ctx_updateQuantity_nth)

theorem updateQuantity_spec_witness:
  "items (updateQuantity 1 5
            ((mounted None [] True)\<lparr>items := [with_quantity laptop 1, with_quantity smartphone 2]\<rparr>))
     = [with_quantity laptop 5, with_quantity smartphone 2]
 \<and> items (updateQuantity 1 0
            ((mounted None [] True)\<lparr>items := [with_quantity laptop 1, with_quantity smartphone 2]\<rparr>))
     = [with_quantity laptop 1, with_quantity smartphone 2]
 \<and> idb_items (idb_updateQuantity 1 5
            ((idb_init True (idb_mounted [] True))\<lparr>idb_items := [with_quantity laptop 1]\<rparr>))
     = [with_quantity laptop 5]"
proof -
  let ?s = "(mounted None [] True)\<lparr>items := [with_quantity laptop 1, with_quantity smartphone 2]\<rparr>"
  let ?t = "(idb_init True (idb_mounted [] True))\<lparr>idb_items := [with_quantity laptop 1]\<rparr>"
  have t: "(db ?t \<or> idb_items ?t = []) \<and> distinct (map item_id (idb_items ?t))"
    by (simp add: idb_init_def idb_mounted_def Let_def)
  have a: "ctx_updateQuantity 1 5 (items ?s) = [with_quantity laptop 5, with_quantity smartphone 2]"
    by (simp add: ctx_updateQuantity_def with_quantity_def laptop_def smartphone_def)
  have b: "ctx_updateQuantity 1 5 (idb_items ?t) = [with_quantity laptop 5]"
    by (simp add: ctx_updateQuantity_def with_quantity_def laptop_def)
  from updateQuantity_spec [of 5 1 ?s ?t] t a b
  have "items (updateQuantity 1 5 ?s) = [with_quantity laptop 5, with_quantity smartphone 2]"
    and "idb_items (idb_updateQuantity 1 5 ?t) = [with_quantity laptop 5]"
    by simp_all
  moreover from updateQuantity_spec [of 0 1 ?s ?t]
  have "items (updateQuantity 1 0 ?s) = [with_quantity laptop 1, with_quantity smartphone 2]"
    by simp
  ultimately show ?thesis by simp
qed

section \<open>Reconciling a received snapshot\<close>







section \<open>Fields that logging and notifying leave alone\<close>

lemma timers_log_effect [simp]: "timers (log_effect e s) = timers s"
  by (simp add: log_effect_def)

lemma syncTimeoutRef_log_effect [simp]: "syncTimeoutRef (log_effect e s) = syncTimeoutRef s"
  by (simp add: log_effect_def)

lemma localStorage_log_effect [simp]: "localStorage (log_effect e s) = localStorage s"
  by (simp add: log_effect_def)

lemma cart_store_log_effect [simp]: "cart_store (log_effect e s) = cart_store s"
  by (simp add: log_effect_def)

lemma trace_log_effect [simp]: "trace (log_effect e s) = trace s @ [e]"
  by (simp add: log_effect_def)

section \<open>Cold start\<close>

text \<open>
  C5, as stated, fails. localStorage holds one laptop and the object store is empty:
  the read of the object store completes with the empty result, and the snapshot and
  localStorage still hold the laptop.
\<close>

theorem cold_start_empty_durable_counterexample:
  "store_getAll [] = []
 \<and> items (init True (load_localStorage
            (mounted (Some (JSON_stringify [with_quantity laptop 1])) [] True)))
     = [with_quantity laptop 1]
 \<and> localStorage (init True (load_localStorage
            (mounted (Some (JSON_stringify [with_quantity laptop 1])) [] True)))
     = Some (JSON_stringify [with_quantity laptop 1])"
  by code_simp

lemma getAll_onsuccess_fields:
  "items (getAll_onsuccess result s) = (if result = [] then items s else result)"
  "localStorage (getAll_onsuccess result s)
     = (if result = [] then localStorage s else Some (JSON_stringify result))"
  "\<not> loading (getAll_onsuccess result s)"
  by (simp_all add: getAll_onsuccess_def Let_def)

text \<open>
  C5, amended. When the read of the object store completes, a result that is not empty
  replaces the snapshot and is written to localStorage; on the empty result the
  snapshot and localStorage stay as the read of localStorage left them. In both cases
  \<open>loading\<close> is false afterwards.
\<close>

theorem cold_start_spec:
  assumes "store_ok s"
  shows "items (init True s)
           = (if store_getAll (cart_store s) = [] then items s else store_getAll (cart_store s))
       \<and> localStorage (init True s)
           = (if store_getAll (cart_store s) = [] then localStorage s
              else Some (JSON_stringify (store_getAll (cart_store s))))
       \<and> \<not> loading (init True s)"
  using assms by (simp add: init_def Let_def getAll_onsuccess_fields)

theorem cold_start_spec_witness:
  "items (init True (load_localStorage
       (mounted (Some (JSON_stringify [with_quantity laptop 1])) [with_quantity laptop 3] True)))
     = [with_quantity laptop 3]
 \<and> localStorage (init True (load_localStorage
       (mounted (Some (JSON_stringify [with_quantity laptop 1])) [with_quantity laptop 3] True)))
     = Some (JSON_stringify [with_quantity laptop 3])
 \<and> \<not> loading (init True (load_localStorage
       (mounted (Some (JSON_stringify [with_quantity laptop 1])) [with_quantity laptop 3] True)))"
proof -
  let ?s = "load_localStorage
       (mounted (Some (JSON_stringify [with_quantity laptop 1])) [with_quantity laptop 3] True)"
  have ok: "store_ok ?s" by code_simp
  have st: "store_getAll (cart_store ?s) = [with_quantity laptop 3]" by code_simp
  from cold_start_spec [OF ok] st show ?thesis by simp
qed

section \<open>Clearing the cart\<close>

text \<open>
  C8, as stated, fails. \<open>clearCart\<close> is called before \<open>initDB\<close> has resolved, with one
  laptop in the object store: \<open>dbRef.current\<close> is null, no request is made, and the
  laptop is still in the object store. It is still there, too, when the database is
  open and the \<open>clear\<close> request fails.
\<close>

theorem clearCart_unopened_counterexample:
  "cart_store (clearCart (load_localStorage
       (mounted (Some (JSON_stringify [with_quantity laptop 1])) [with_quantity laptop 1] True)))
     = [with_quantity laptop 1]
 \<and> cart_store (clearCart
       ((init True (mounted None [with_quantity laptop 1] True))\<lparr>store_ok := False\<rparr>))
     = [with_quantity laptop 1]"
  by code_simp

lemma timers_clearCart: "timers (clearCart s) = timers s"
  by (simp add: clearCart_def notifyOtherTabs_def Let_def)

text \<open>
  C8, amended. \<open>clearCart()\<close> empties the snapshot and localStorage at once. When the
  database has been opened it requests \<open>clear\<close> on the object store itself, which
  empties it when the request succeeds; no other request is made. The timers and the
  timer ref are as before: the debounce schedule has no part in it. On an empty
  snapshot the snapshot stays empty (the function has no failing branch).
\<close>

theorem clearCart_spec:
  "items (clearCart s) = []
 \<and> localStorage (clearCart s) = None
 \<and> (dbRef s \<and> store_ok s \<longrightarrow> cart_store (clearCart s) = [])
 \<and> timers (clearCart s) = timers s
 \<and> syncTimeoutRef (clearCart s) = syncTimeoutRef s
 \<and> durable_writes (trace (clearCart s))
      = durable_writes (trace s) @ (if dbRef s then [(Clear, store_ok s)] else [])"
  by (simp add: clearCart_def notifyOtherTabs_def Let_def durable_writes_def)

theorem clearCart_spec_witness:
  "cart_store (clearCart (run [(0, AddItem laptop)]
                 (init True (mounted None [with_quantity smartphone 1] True)))) = []
 \<and> items (clearCart (clearCart (init True (mounted None [] True)))) = []"
proof -
  let ?s = "run [(0, AddItem laptop)] (init True (mounted None [with_quantity smartphone 1] True))"
  have "dbRef ?s \<and> store_ok ?s" by code_simp
  with clearCart_spec [of ?s] have "cart_store (clearCart ?s) = []" by simp
  moreover from clearCart_spec [of "clearCart (init True (mounted None [] True))"]
  have "items (clearCart (clearCart (init True (mounted None [] True)))) = []" by simp
  ultimately show ?thesis by simp
qed

text \<open>
  C10. \<open>clearCart\<close> leaves the registered timers as they are. An execution: the
  database is open and empty; \<open>addItem(laptop)\<close>, and 500 ms later \<open>clearCart()\<close>. Right
  after the clear the object store is empty and the timer of the \<open>addItem\<close> is still
  registered, with the snapshot of one laptop. 500 ms later it has fired: the snapshot
  and localStorage are empty, the object store holds the laptop, and the requests on
  the object store were the clear and then the write of the snapshot before the clear.
\<close>

theorem clearCart_stale_write:
  "timers (clearCart s) = timers s
 \<and> cart_store (run [(0, AddItem laptop), (500, ClearCart)]
                 (init True (load_localStorage (mounted None [] True)))) = []
 \<and> map newItems (timers (run [(0, AddItem laptop), (500, ClearCart)]
                 (init True (load_localStorage (mounted None [] True)))))
      = [[with_quantity laptop 1]]
 \<and> items (advance 500 (run [(0, AddItem laptop), (500, ClearCart)]
                 (init True (load_localStorage (mounted None [] True))))) = []
 \<and> localStorage (advance 500 (run [(0, AddItem laptop), (500, ClearCart)]
                 (init True (load_localStorage (mounted None [] True))))) = None
 \<and> cart_store (advance 500 (run [(0, AddItem laptop), (500, ClearCart)]
                 (init True (load_localStorage (mounted None [] True)))))
      = [with_quantity laptop 1]
 \<and> durable_writes (trace (advance 500 (run [(0, AddItem laptop), (500, ClearCart)]
                 (init True (load_localStorage (mounted None [] True))))))
      = [(Clear, True), (PutAll [with_quantity laptop 1], True)]"
proof -
  have "timers (clearCart s) = timers s" by (rule timers_clearCart)
  moreover have "cart_store (run [(0, AddItem laptop), (500, ClearCart)]
                 (init True (load_localStorage (mounted None [] True)))) = []" by code_simp
  moreover have "map newItems (timers (run [(0, AddItem laptop), (500, ClearCart)]
                 (init True (load_localStorage (mounted None [] True)))))
      = [[with_quantity laptop 1]]" by code_simp
  moreover have "items (advance 500 (run [(0, AddItem laptop), (500, ClearCart)]
                 (init True (load_localStorage (mounted None [] True))))) = []" by code_simp
  moreover have "localStorage (advance 500 (run [(0, AddItem laptop), (500, ClearCart)]
                 (init True (load_localStorage (mounted None [] True))))) = None" by code_simp
  moreover have "cart_store (advance 500 (run [(0, AddItem laptop), (500, ClearCart)]
                 (init True (load_localStorage (mounted None [] True)))))
      = [with_quantity laptop 1]" by code_simp
  moreover have "durable_writes (trace (advance 500 (run [(0, AddItem laptop), (500, ClearCart)]
                 (init True (load_localStorage (mounted None [] True))))))
      = [(Clear, True), (PutAll [with_quantity laptop 1], True)]" by code_simp
  ultimately show ?thesis by simp
qed

section \<open>The debounced write\<close>

lemma store_addAll_append:
  "store_addAll xs st =
     (if distinct (map item_id xs) \<and> item_id ` set xs \<inter> item_id ` set st = {}
      then Some (st @ xs) else None)"
  by (induction xs arbitrary: st) auto

lemma store_addAll_fresh:
  "store_addAll xs [] = (if distinct (map item_id xs) then Some xs else None)"
  by (simp add: store_addAll_append)

lemma sync_callback_open:
  "dbRef s \<Longrightarrow>
   durable_writes (trace (sync_callback cart s))
     = durable_writes (trace s) @ [(PutAll cart, store_ok s \<and> distinct (map item_id cart))]
 \<and> cart_store (sync_callback cart s)
     = (if store_ok s \<and> distinct (map item_id cart) then cart else cart_store s)
 \<and> timers (sync_callback cart s) = timers s"
  by (simp add: sync_callback_def store_addAll_fresh durable_writes_def)

lemma updated_pending:
  "timers s = [] \<or> pending_write s \<Longrightarrow> pending_write ((updateStorage cart s)\<lparr>items := cart\<rparr>)"
  by (auto simp: pending_write_def updateStorage_def syncToIndexedDB_def clearTimeout_def
      notifyOtherTabs_def log_effect_def Let_def split: option.splits)

lemma updated_durable:
  "durable_writes (trace (updateStorage cart s)) = durable_writes (trace s)"
  by (simp add: updateStorage_def syncToIndexedDB_def clearTimeout_def
      notifyOtherTabs_def Let_def durable_writes_def split: option.splits)

lemma updated_env:
  "dbRef (updateStorage cart s) = dbRef s"
  "store_ok (updateStorage cart s) = store_ok s"
  by (simp_all add: updateStorage_def syncToIndexedDB_def clearTimeout_def
      notifyOtherTabs_def log_effect_def Let_def split: option.splits)

lemma debounced_shape:
  "debounced c \<Longrightarrow> \<exists>cart. apply_call c s = (updateStorage cart s)\<lparr>items := cart\<rparr>"
  by (cases c) (auto simp: addItem_def updateQuantity_def removeItem_def Let_def)

lemma debounced_call:
  assumes "debounced c" and "timers s = [] \<or> pending_write s"
  shows "pending_write (apply_call c s)"
    and "durable_writes (trace (apply_call c s)) = durable_writes (trace s)"
    and "dbRef (apply_call c s) = dbRef s"
    and "store_ok (apply_call c s) = store_ok s"
proof -
  from debounced_shape [OF assms(1)]
  obtain cart where c: "apply_call c s = (updateStorage cart s)\<lparr>items := cart\<rparr>" by blast
  show "pending_write (apply_call c s)"
    unfolding c using assms(2) by (rule updated_pending)
  show "durable_writes (trace (apply_call c s)) = durable_writes (trace s)"
    unfolding c by (simp add: updated_durable)
  show "dbRef (apply_call c s) = dbRef s" unfolding c by (simp add: updated_env)
  show "store_ok (apply_call c s) = store_ok s" unfolding c by (simp add: updated_env)
qed

lemma advance_idle:
  "timers s = [] \<Longrightarrow> advance d s = s\<lparr>clock := clock s + d\<rparr>"
  by (simp add: advance_def Let_def)

lemma advance_early:
  "pending_write s \<Longrightarrow> d < 1000 \<Longrightarrow> advance d s = s\<lparr>clock := clock s + d\<rparr>"
  by (auto simp: advance_def pending_write_def Let_def split: option.splits)

lemma advance_due:
  assumes "pending_write s" and "1000 \<le> d"
  shows "advance d s = (sync_callback (items s) (s\<lparr>timers := []\<rparr>))\<lparr>clock := clock s + d\<rparr>"
  using assms by (auto simp: advance_def pending_write_def Let_def split: option.splits)

lemma burst_step:
  assumes "pending_write s" and "d < 1000" and "debounced c"
  shows "pending_write (apply_call c (advance d s))"
    and "durable_writes (trace (apply_call c (advance d s))) = durable_writes (trace s)"
    and "dbRef (apply_call c (advance d s)) = dbRef s"
    and "store_ok (apply_call c (advance d s)) = store_ok s"
proof -
  let ?s = "s\<lparr>clock := clock s + d\<rparr>"
  have adv: "advance d s = ?s" using assms(1,2) by (rule advance_early)
  have p: "pending_write ((updateStorage cart ?s)\<lparr>items := cart\<rparr>)" for cart
    using assms(1)
    by (auto simp: pending_write_def updateStorage_def syncToIndexedDB_def clearTimeout_def
      notifyOtherTabs_def log_effect_def Let_def split: option.splits)
  from debounced_shape [OF assms(3)]
  obtain cart where c: "apply_call c ?s = (updateStorage cart ?s)\<lparr>items := cart\<rparr>" by blast
  show "pending_write (apply_call c (advance d s))" unfolding adv c by (rule p)
  show "durable_writes (trace (apply_call c (advance d s))) = durable_writes (trace s)"
    unfolding adv c by (simp add: updated_durable)
  show "dbRef (apply_call c (advance d s)) = dbRef s" unfolding adv c by (simp add: updated_env)
  show "store_ok (apply_call c (advance d s)) = store_ok s" unfolding adv c by (simp add: updated_env)
qed

lemma burst_rest:
  assumes "pending_write s" and "list_all (\<lambda>(d, c). d < 1000 \<and> debounced c) rest"
  shows "pending_write (run rest s)
       \<and> durable_writes (trace (run rest s)) = durable_writes (trace s)
       \<and> dbRef (run rest s) = dbRef s \<and> store_ok (run rest s) = store_ok s"
  using assms
proof (induction rest arbitrary: s)
  case Nil
  then show ?case by simp
next
  case (Cons dc rest)
  obtain d c where dc: "dc = (d, c)" by (cases dc)
  from Cons.prems have d: "d < 1000" and c: "debounced c"
    and rest: "list_all (\<lambda>(d, c). d < 1000 \<and> debounced c) rest"
    by (simp_all add: dc)
  note st = burst_step [OF Cons.prems(1) d c]
  from Cons.IH [OF st(1) rest] st(2,3,4) show ?case by (simp add: dc)
qed

lemma burst_first:
  assumes "timers s = []" and "debounced c"
  shows "pending_write (apply_call c (advance d s))"
    and "durable_writes (trace (apply_call c (advance d s))) = durable_writes (trace s)"
    and "dbRef (apply_call c (advance d s)) = dbRef s"
    and "store_ok (apply_call c (advance d s)) = store_ok s"
proof -
  let ?s = "s\<lparr>clock := clock s + d\<rparr>"
  have adv: "advance d s = ?s" using assms(1) by (rule advance_idle)
  have idle: "timers ?s = [] \<or> pending_write ?s" using assms(1) by simp
  note dc = debounced_call [OF assms(2) idle]
  show "pending_write (apply_call c (advance d s))" unfolding adv by (rule dc)
  show "durable_writes (trace (apply_call c (advance d s))) = durable_writes (trace s)"
    unfolding adv using dc(2) by simp
  show "dbRef (apply_call c (advance d s)) = dbRef s" unfolding adv using dc(3) by simp
  show "store_ok (apply_call c (advance d s)) = store_ok s" unfolding adv using dc(4) by simp
qed

text \<open>At most one timer is registered, whatever is called and whenever.\<close>

lemma timer_inv_updateStorage: "timer_inv s \<Longrightarrow> timer_inv ((updateStorage cart s)\<lparr>items := cart\<rparr>)"
  by (auto simp: timer_inv_def updateStorage_def syncToIndexedDB_def clearTimeout_def
      notifyOtherTabs_def log_effect_def Let_def split: option.splits)

lemma timer_inv_apply_call: "timer_inv s \<Longrightarrow> timer_inv (apply_call c s)"
proof (cases c)
  case (UpdateQuantity k q)
  assume "timer_inv s"
  then show ?thesis
    by (cases "q < 1") (simp_all add: UpdateQuantity updateQuantity_def Let_def timer_inv_updateStorage)
next
  case ClearCart
  assume "timer_inv s"
  then show ?thesis
    by (simp add: ClearCart timer_inv_def clearCart_def notifyOtherTabs_def log_effect_def Let_def)
qed (simp_all add: addItem_def removeItem_def Let_def timer_inv_updateStorage)

lemma timers_sync_callback [simp]: "timers (sync_callback cart s) = timers s"
  by (simp add: sync_callback_def split: option.split)

lemma syncTimeoutRef_sync_callback [simp]: "syncTimeoutRef (sync_callback cart s) = syncTimeoutRef s"
  by (simp add: sync_callback_def split: option.split)

lemma timers_foldl_sync [simp]:
  "timers (foldl (\<lambda>st tm. sync_callback (newItems tm) st) s due) = timers s"
  by (induction due arbitrary: s) simp_all

lemma syncTimeoutRef_foldl_sync [simp]:
  "syncTimeoutRef (foldl (\<lambda>st tm. sync_callback (newItems tm) st) s due) = syncTimeoutRef s"
  by (induction due arbitrary: s) simp_all

lemma timer_inv_cases:
  "timer_inv s \<Longrightarrow> timers s = [] \<or> (\<exists>tm. timers s = [tm] \<and> syncTimeoutRef s = Some (timer_id tm))"
  by (auto simp: timer_inv_def map_eq_Cons_conv)

lemma timer_inv_advance:
  assumes "timer_inv s"
  shows "timer_inv (advance d s)"
proof -
  from timer_inv_cases [OF assms] show ?thesis
  proof
    assume "timers s = []"
    then show ?thesis by (simp add: timer_inv_def advance_def Let_def)
  next
    assume "\<exists>tm. timers s = [tm] \<and> syncTimeoutRef s = Some (timer_id tm)"
    then obtain tm where "timers s = [tm]" and "syncTimeoutRef s = Some (timer_id tm)" by blast
    then show ?thesis by (simp add: timer_inv_def advance_def Let_def)
  qed
qed

lemma timer_inv_run: "timer_inv s \<Longrightarrow> timer_inv (run sched s)"
proof (induction sched arbitrary: s)
  case Nil
  then show ?case by simp
next
  case (Cons dc sched)
  obtain d c where dc: "dc = (d, c)" by (cases dc)
  from Cons.prems have "timer_inv (apply_call c (advance d s))"
    by (simp add: timer_inv_advance timer_inv_apply_call)
  then show ?case by (simp add: dc Cons.IH)
qed

lemma timer_inv_length: "timer_inv s \<Longrightarrow> length (timers s) \<le> 1"
  by (auto simp: timer_inv_def map_eq_Cons_conv)

text \<open>
  C3, amended. The database is open and no timer is registered. A burst of one or more
  calls of \<open>addItem\<close>, \<open>updateQuantity\<close> (with \<open>q \<ge> 1\<close>) and \<open>removeItem\<close>, each less than
  1000 ms after the one before, makes no request on the object store while it lasts and
  leaves one timer, which carries the snapshot of the last call. Once 1000 ms have
  passed, that timer has fired and made one write, of that snapshot (which succeeds
  when requests on the store succeed and the ids are unique); no timer is left. At
  every point of the burst at most one timer is registered.
\<close>

theorem debounce_spec:
  assumes "timers s0 = []" and "dbRef s0" and "debounced c0"
    and "list_all (\<lambda>(d, c). d < 1000 \<and> debounced c) rest" and "1000 \<le> d'"
  shows "durable_writes (trace (run ((d0, c0) # rest) s0)) = durable_writes (trace s0)
       \<and> map newItems (timers (run ((d0, c0) # rest) s0)) = [items (run ((d0, c0) # rest) s0)]
       \<and> durable_writes (trace (advance d' (run ((d0, c0) # rest) s0)))
           = durable_writes (trace s0)
             @ [(PutAll (items (run ((d0, c0) # rest) s0)),
                 store_ok s0 \<and> distinct (map item_id (items (run ((d0, c0) # rest) s0))))]
       \<and> timers (advance d' (run ((d0, c0) # rest) s0)) = []
       \<and> (store_ok s0 \<and> distinct (map item_id (items (run ((d0, c0) # rest) s0))) \<longrightarrow>
            cart_store (advance d' (run ((d0, c0) # rest) s0)) = items (run ((d0, c0) # rest) s0))
       \<and> (\<forall>k. length (timers (run (take k ((d0, c0) # rest)) s0)) \<le> 1)"
proof -
  define s1 where "s1 = run ((d0, c0) # rest) s0"
  note first = burst_first [OF assms(1,3), of d0]
  from burst_rest [OF first(1) assms(4)] first(2,3,4)
  have p: "pending_write s1"
    and w: "durable_writes (trace s1) = durable_writes (trace s0)"
    and env: "dbRef s1 = dbRef s0" "store_ok s1 = store_ok s0"
    by (simp_all add: s1_def)
  from p have tm: "map newItems (timers s1) = [items s1]"
    by (auto simp: pending_write_def split: option.splits)
  have adv: "advance d' s1 = (sync_callback (items s1) (s1\<lparr>timers := []\<rparr>))\<lparr>clock := clock s1 + d'\<rparr>"
    using p assms(5) by (rule advance_due)
  have "dbRef (s1\<lparr>timers := []\<rparr>)" using env(1) assms(2) by simp
  note cb = sync_callback_open [OF this, of "items s1"]
  have inv: "timer_inv s0" using assms(1) by (simp add: timer_inv_def)
  have len: "\<forall>k. length (timers (run (take k ((d0, c0) # rest)) s0)) \<le> 1"
    using timer_inv_length [OF timer_inv_run [OF inv]] by blast
  have "durable_writes (trace s1) = durable_writes (trace s0)
       \<and> map newItems (timers s1) = [items s1]
       \<and> durable_writes (trace (advance d' s1))
           = durable_writes (trace s0)
             @ [(PutAll (items s1), store_ok s0 \<and> distinct (map item_id (items s1)))]
       \<and> timers (advance d' s1) = []
       \<and> (store_ok s0 \<and> distinct (map item_id (items s1)) \<longrightarrow>
            cart_store (advance d' s1) = items s1)"
    using w tm cb unfolding adv by (simp add: env)
  with len show ?thesis unfolding s1_def by blast
qed

text \<open>
  C3, as stated, fails. First: \<open>initDB\<close> rejected, so \<open>dbRef.current\<close> stays null; two
  \<open>addItem\<close> calls 500 ms apart, and 1000 ms later the timer has fired and returned at
  once: no request was made on the object store. Second: the database is open;
  \<open>addItem\<close>, 500 ms later \<open>clearCart\<close>, and 1000 ms later two requests have been made,
  the last of them writing the laptop while the snapshot is empty.
\<close>

theorem debounce_counterexample:
  "durable_writes (trace (advance 1000 (run [(0, AddItem laptop), (500, AddItem laptop)]
       (init False (load_localStorage (mounted None [] True)))))) = []
 \<and> durable_writes (trace (advance 1000 (run [(0, AddItem laptop), (500, ClearCart)]
       (init True (load_localStorage (mounted None [] True))))))
     = [(Clear, True), (PutAll [with_quantity laptop 1], True)]
 \<and> items (advance 1000 (run [(0, AddItem laptop), (500, ClearCart)]
       (init True (load_localStorage (mounted None [] True))))) = []"
  by code_simp

theorem debounce_spec_witness:
  "durable_writes (trace (advance 1000
      (run [(0, AddItem laptop), (300, AddItem laptop), (999, UpdateQuantity 1 5),
            (10, AddItem smartphone), (500, RemoveItem 2)]
           (init True (load_localStorage (mounted None [] True))))))
     = [(PutAll [with_quantity laptop 5], True)]
 \<and> cart_store (advance 1000
      (run [(0, AddItem laptop), (300, AddItem laptop), (999, UpdateQuantity 1 5),
            (10, AddItem smartphone), (500, RemoveItem 2)]
           (init True (load_localStorage (mounted None [] True)))))
     = [with_quantity laptop 5]"
proof -
  let ?s0 = "init True (load_localStorage (mounted None [] True))"
  let ?rest = "[(300::nat, AddItem laptop), (999, UpdateQuantity 1 5),
            (10, AddItem smartphone), (500, RemoveItem 2)]"
  have 1: "timers ?s0 = []" by code_simp
  have 2: "dbRef ?s0" by code_simp
  have 3: "debounced (AddItem laptop)" by simp
  have 4: "list_all (\<lambda>(d, c). d < 1000 \<and> debounced c) ?rest" by simp
  have 5: "(1000::nat) \<le> 1000" by simp
  have 6: "items (run ((0, AddItem laptop) # ?rest) ?s0) = [with_quantity laptop 5]"
    by code_simp
  have 7: "durable_writes (trace ?s0) = []" by code_simp
  have 8: "store_ok ?s0" by code_simp
  have 9: "distinct (map item_id [with_quantity laptop 5])" by simp
  from debounce_spec [OF 1 2 3 4 5, of 0] show ?thesis
    unfolding 6 7 using 8 9 by simp
qed

section \<open>Notifying the other tabs\<close>

text \<open>
  C2, as stated, fails. The database is open and its requests fail. \<open>addItem(laptop)\<close>
  has posted the snapshot when it returns, with no request made on the object store;
  1000 ms later the write is made and fails, and the message has long been posted.
\<close>

theorem notify_before_write_counterexample:
  "trace (addItem laptop ((init True (load_localStorage (mounted None [] True)))\<lparr>store_ok := False\<rparr>))
     = [Posted \<lparr>msg_type = ''CART_UPDATED'', msg_items = [with_quantity laptop 1]\<rparr>]
 \<and> trace (advance 1000
         (addItem laptop ((init True (load_localStorage (mounted None [] True)))\<lparr>store_ok := False\<rparr>)))
     = [Posted \<lparr>msg_type = ''CART_UPDATED'', msg_items = [with_quantity laptop 1]\<rparr>,
        Durable (PutAll [with_quantity laptop 1]) False,
        ConsoleError ''Failed to sync with IndexedDB:'']"
  by code_simp

lemma trace_updateStorage:
  "trace (updateStorage cart s) = trace s @ [Posted \<lparr>msg_type = ''CART_UPDATED'', msg_items = cart\<rparr>]"
  by (simp add: updateStorage_def syncToIndexedDB_def clearTimeout_def
      notifyOtherTabs_def Let_def split: option.splits)

lemma new_effects_debounced:
  assumes "debounced c"
  shows "new_effects c s = [Posted \<lparr>msg_type = ''CART_UPDATED'', msg_items = items (apply_call c s)\<rparr>]"
proof -
  from debounced_shape [OF assms]
  obtain cart where c: "apply_call c s = (updateStorage cart s)\<lparr>items := cart\<rparr>" by blast
  show ?thesis unfolding new_effects_def c by (simp add: trace_updateStorage)
qed

lemma new_effects_clearCart:
  "new_effects ClearCart s
     = (if dbRef s then [Durable Clear (store_ok s)] else [])
       @ [Posted \<lparr>msg_type = ''CART_UPDATED'', msg_items = []\<rparr>]"
  by (simp add: new_effects_def clearCart_def notifyOtherTabs_def Let_def)

lemma idb_trace_log [simp]: "idb_trace (idb_log e t) = idb_trace t @ [e]"
  by (simp add: idb_log_def)

lemma idb_new_effects_ok:
  "db_ok t \<Longrightarrow>
   idb_new_effects c t = [] \<or>
   (\<exists>w. idb_new_effects c t = [Durable w True, PostedSignal ''CART_UPDATED''])"
  by (cases c)
     (auto simp: idb_new_effects_def idb_addItem_def idb_updateQuantity_def idb_removeItem_def
        idb_clearCart_def idb_notifyOtherTabs_def Let_def split: option.splits)

lemma idb_new_effects_failed:
  "\<not> db_ok t \<Longrightarrow> notifications (idb_new_effects c t) = []"
  by (cases c)
     (auto simp: idb_new_effects_def idb_addItem_def idb_updateQuantity_def idb_removeItem_def
        idb_clearCart_def idb_notifyOtherTabs_def notifications_def Let_def split: option.splits)

lemma trace_apply_call: "trace (apply_call c s) = trace s @ new_effects c s"
proof (cases "debounced c")
  case True
  from debounced_shape [OF True]
  obtain cart where c: "apply_call c s = (updateStorage cart s)\<lparr>items := cart\<rparr>" by blast
  show ?thesis unfolding new_effects_def c by (simp add: trace_updateStorage)
next
  case False
  then show ?thesis
    by (cases c)
       (auto simp: new_effects_def clearCart_def notifyOtherTabs_def Let_def updateQuantity_def)
qed

lemma idb_trace_apply_call: "idb_trace (idb_apply_call c t) = idb_trace t @ idb_new_effects c t"
  by (cases c)
     (auto simp: idb_new_effects_def idb_addItem_def idb_updateQuantity_def idb_removeItem_def
        idb_clearCart_def idb_notifyOtherTabs_def Let_def split: option.splits)

text \<open>
  C2, amended. IndexedDB variant: the effects of a call are none, or a request on the
  object store that succeeded followed by the posted \<open>CART_UPDATED\<close> signal; when
  requests fail, a call posts nothing. Hybrid variant: \<open>addItem\<close>, \<open>updateQuantity\<close>
  (\<open>q \<ge> 1\<close>) and \<open>removeItem\<close> post the new snapshot within the call and make no request
  on the object store there (the write comes with the timer); \<open>clearCart\<close> posts the
  empty snapshot right after its \<open>clear\<close> request, whatever became of it.
\<close>

theorem notify_spec:
  "idb_trace (idb_apply_call c t) = idb_trace t @ idb_new_effects c t
 \<and> (db_ok t \<longrightarrow> idb_new_effects c t = [] \<or>
        (\<exists>w. idb_new_effects c t = [Durable w True, PostedSignal ''CART_UPDATED'']))
 \<and> (\<not> db_ok t \<longrightarrow> notifications (idb_new_effects c t) = [])
 \<and> trace (apply_call c s) = trace s @ new_effects c s
 \<and> (debounced c \<longrightarrow>
        new_effects c s
          = [Posted \<lparr>msg_type = ''CART_UPDATED'', msg_items = items (apply_call c s)\<rparr>])
 \<and> new_effects ClearCart s
      = (if dbRef s then [Durable Clear (store_ok s)] else [])
        @ [Posted \<lparr>msg_type = ''CART_UPDATED'', msg_items = []\<rparr>]"
  using idb_new_effects_ok [of t c] idb_new_effects_failed [of t c] new_effects_debounced [of c s]
  by (simp add: idb_trace_apply_call trace_apply_call new_effects_clearCart)

theorem notify_spec_witness:
  "idb_trace (idb_apply_call (AddItem laptop) (idb_init True (idb_mounted [] True)))
     = [Durable (Put (with_quantity laptop 1)) True, PostedSignal ''CART_UPDATED'']
 \<and> notifications (idb_new_effects (AddItem laptop)
        ((idb_init True (idb_mounted [] True))\<lparr>db_ok := False\<rparr>)) = []
 \<and> trace (apply_call (AddItem laptop) (init True (load_localStorage (mounted None [] True))))
     = [Posted \<lparr>msg_type = ''CART_UPDATED'', msg_items = [with_quantity laptop 1]\<rparr>]"
proof -
  let ?t = "idb_init True (idb_mounted [] True)"
  let ?s = "init True (load_localStorage (mounted None [] True))"
  have a: "idb_trace ?t = []" "idb_new_effects (AddItem laptop) ?t
     = [Durable (Put (with_quantity laptop 1)) True, PostedSignal ''CART_UPDATED'']"
    by code_simp+
  have b: "\<not> db_ok (?t\<lparr>db_ok := False\<rparr>)" by simp
  have c: "debounced (AddItem laptop)" by simp
  have d: "trace ?s = []" "items (apply_call (AddItem laptop) ?s) = [with_quantity laptop 1]"
    by code_simp+
  from notify_spec [of "AddItem laptop" ?t ?s] a
  have "idb_trace (idb_apply_call (AddItem laptop) ?t)
     = [Durable (Put (with_quantity laptop 1)) True, PostedSignal ''CART_UPDATED'']"
    by simp
  moreover from notify_spec [of "AddItem laptop" "?t\<lparr>db_ok := False\<rparr>" ?s] b
  have "notifications (idb_new_effects (AddItem laptop) (?t\<lparr>db_ok := False\<rparr>)) = []"
    by blast
  moreover from notify_spec [of "AddItem laptop" ?t ?s] c d
  have "trace (apply_call (AddItem laptop) ?s)
     = [Posted \<lparr>msg_type = ''CART_UPDATED'', msg_items = [with_quantity laptop 1]\<rparr>]"
    by simp
  ultimately show ?thesis by simp
qed

section \<open>A durable write that fails\<close>

text \<open>
  C1, as stated, fails. Hybrid variant, the database open and its requests failing:
  the snapshot is empty and the total 0; \<open>addItem(laptop)\<close>, and 1000 ms later the
  write has been made and has failed. The snapshot still holds the laptop, and the
  total is 999.
\<close>

theorem no_rollback_counterexample:
  "items ((init True (load_localStorage (mounted None [] True)))\<lparr>store_ok := False\<rparr>) = []
 \<and> total (items ((init True (load_localStorage (mounted None [] True)))\<lparr>store_ok := False\<rparr>)) = 0
 \<and> durable_writes (trace (advance 1000 (addItem laptop
        ((init True (load_localStorage (mounted None [] True)))\<lparr>store_ok := False\<rparr>))))
     = [(PutAll [with_quantity laptop 1], False)]
 \<and> items (advance 1000 (addItem laptop
        ((init True (load_localStorage (mounted None [] True)))\<lparr>store_ok := False\<rparr>)))
     = [with_quantity laptop 1]
 \<and> total (items (advance 1000 (addItem laptop
        ((init True (load_localStorage (mounted None [] True)))\<lparr>store_ok := False\<rparr>))))
     = 999"
  by code_simp

text \<open>
  The two rollbacks of the IndexedDB variant that restore nothing: the one of
  \<open>updateQuantity\<close> sets each quantity to itself, the one of \<open>addItem\<close> on an id that is
  present returns \<open>prev\<close>.
\<close>

lemma idb_updateQuantity_failed_example:
  "idb_items (idb_updateQuantity 1 5
      ((idb_init True (idb_mounted [with_quantity laptop 1] True))\<lparr>db_ok := False\<rparr>))
     = [with_quantity laptop 5]"
  by code_simp

lemma idb_addItem_present_failed_example:
  "idb_items (idb_addItem laptop
      ((idb_init True (idb_mounted [with_quantity laptop 1] True))\<lparr>db_ok := False\<rparr>))
     = [with_quantity laptop 2]"
  by code_simp

lemma idb_items_log [simp]: "idb_items (idb_log e t) = idb_items t"
  by (simp add: idb_log_def)

lemma idb_clearCart_rollback:
  "db t \<Longrightarrow> \<not> db_ok t \<Longrightarrow> idb_items (idb_clearCart t) = idb_items t"
  by (simp add: idb_clearCart_def Let_def)

lemma filter_appended:
  "\<forall>x\<in>set xs. P x \<Longrightarrow> \<not> P y \<Longrightarrow> filter P (xs @ [y]) = xs"
  by (simp add: filter_id_conv)

lemma idb_addItem_rollback:
  assumes "db t" and "\<not> db_ok t" and "\<forall>item\<in>set (idb_items t). item_id item \<noteq> item_id p"
  shows "idb_items (idb_addItem p t) = idb_items t"
proof -
  have none: "find (\<lambda>item. item_id item = item_id p) (idb_items t) = None"
    using assms(3) by (simp add: find_absent)
  have "filter (\<lambda>item. item_id item \<noteq> item_id p) (idb_items t @ [with_quantity p 1]) = idb_items t"
    using assms(3) by (intro filter_appended) (simp_all add: with_quantity_def)
  then show ?thesis
    using assms(1,2) by (simp add: idb_addItem_def none Let_def)
qed

lemma idb_removeItem_rollback:
  assumes "db t" and "\<not> db_ok t"
  shows "idb_items (idb_removeItem k t)
           = filter (\<lambda>item. item_id item \<noteq> k) (idb_items t)
             @ (case find (\<lambda>item. item_id item = k) (idb_items t) of
                  Some r \<Rightarrow> [r] | None \<Rightarrow> [])"
  using assms by (simp add: idb_removeItem_def Let_def split: option.split)

lemma sum_removed:
  "distinct (map item_id xs) \<Longrightarrow>
   (\<Sum>item\<leftarrow>filter (\<lambda>item. item_id item \<noteq> k) xs
              @ (case find (\<lambda>item. item_id item = k) xs of Some r \<Rightarrow> [r] | None \<Rightarrow> []).
       price item * quantity item)
     = (\<Sum>item\<leftarrow>xs. price item * quantity item)"
proof (induction xs)
  case Nil
  then show ?case by simp
next
  case (Cons x xs)
  show ?case
  proof (cases "item_id x = k")
    case True
    from Cons.prems True have "\<forall>item\<in>set xs. item_id item \<noteq> k"
      by (auto simp: image_iff)
    then have "filter (\<lambda>item. item_id item \<noteq> k) xs = xs" by (simp add: filter_id_conv)
    with True show ?thesis by simp
  next
    case False
    with Cons show ?thesis by (simp split: option.split)
  qed
qed

lemma idb_removeItem_total:
  assumes "db t" and "\<not> db_ok t" and "distinct (map item_id (idb_items t))"
  shows "total (idb_items (idb_removeItem k t)) = total (idb_items t)"
  unfolding idb_removeItem_rollback [OF assms(1,2)] total_sum
  using assms(3) by (rule sum_removed)

text \<open>
  C1, amended. Hybrid variant: a timer that fires never changes the snapshot, so a
  failed write leaves the snapshot the call committed. IndexedDB variant, when the
  request of the call fails: \<open>clearCart\<close> restores the snapshot it started from; so does
  \<open>addItem\<close> of a product whose id no item has; \<open>removeItem\<close> leaves the snapshot without
  the items of that id, followed by the first of them, and on a snapshot of unique ids
  the total is what it was.
\<close>

theorem rollback_spec:
  "items (advance d s) = items s
 \<and> (db t \<and> \<not> db_ok t \<longrightarrow>
      idb_items (idb_clearCart t) = idb_items t
    \<and> ((\<forall>item\<in>set (idb_items t). item_id item \<noteq> item_id p) \<longrightarrow>
          idb_items (idb_addItem p t) = idb_items t)
    \<and> idb_items (idb_removeItem k t)
        = filter (\<lambda>item. item_id item \<noteq> k) (idb_items t)
          @ (case find (\<lambda>item. item_id item = k) (idb_items t) of
               Some r \<Rightarrow> [r] | None \<Rightarrow> [])
    \<and> (distinct (map item_id (idb_items t)) \<longrightarrow>
          total (idb_items (idb_removeItem k t)) = total (idb_items t)))"
  using idb_addItem_rollback [of t p] idb_removeItem_rollback [of t k] idb_removeItem_total [of t k]
  by (simp add: idb_clearCart_rollback)

theorem rollback_spec_witness:
  "idb_items (idb_clearCart
      ((idb_init True (idb_mounted [with_quantity laptop 2, with_quantity smartphone 1] True))
         \<lparr>db_ok := False\<rparr>))
     = [with_quantity laptop 2, with_quantity smartphone 1]
 \<and> idb_items (idb_addItem headphones
      ((idb_init True (idb_mounted [with_quantity laptop 2, with_quantity smartphone 1] True))
         \<lparr>db_ok := False\<rparr>))
     = [with_quantity laptop 2, with_quantity smartphone 1]
 \<and> idb_items (idb_removeItem 1
      ((idb_init True (idb_mounted [with_quantity laptop 2, with_quantity smartphone 1] True))
         \<lparr>db_ok := False\<rparr>))
     = [with_quantity smartphone 1, with_quantity laptop 2]
 \<and> total (idb_items (idb_removeItem 1
      ((idb_init True (idb_mounted [with_quantity laptop 2, with_quantity smartphone 1] True))
         \<lparr>db_ok := False\<rparr>)))
     = 2697"
proof -
  let ?t = "(idb_init True (idb_mounted [with_quantity laptop 2, with_quantity smartphone 1] True))
         \<lparr>db_ok := False\<rparr>"
  have its: "idb_items ?t = [with_quantity laptop 2, with_quantity smartphone 1]" by code_simp
  have pre: "db ?t \<and> \<not> db_ok ?t" by code_simp
  have fresh: "\<forall>item\<in>set (idb_items ?t). item_id item \<noteq> item_id headphones"
    unfolding its by (simp add: with_quantity_def laptop_def smartphone_def headphones_def)
  have dist: "distinct (map item_id (idb_items ?t))"
    unfolding its by (simp add: with_quantity_def laptop_def smartphone_def)
  have tot: "total (idb_items ?t) = 2697" by code_simp
  note r = rollback_spec [of 0 "mounted None [] True" ?t headphones 1]
  from r pre have "idb_items (idb_clearCart ?t) = idb_items ?t" by blast
  then have c1: "idb_items (idb_clearCart ?t) = [with_quantity laptop 2, with_quantity smartphone 1]"
    by (simp only: its)
  from r pre fresh have "idb_items (idb_addItem headphones ?t) = idb_items ?t" by blast
  then have c2: "idb_items (idb_addItem headphones ?t)
      = [with_quantity laptop 2, with_quantity smartphone 1]"
    by (simp only: its)
  from r pre have "idb_items (idb_removeItem 1 ?t)
        = filter (\<lambda>item. item_id item \<noteq> 1) (idb_items ?t)
          @ (case find (\<lambda>item. item_id item = 1) (idb_items ?t) of
               Some r \<Rightarrow> [r] | None \<Rightarrow> [])" by blast
  then have c3: "idb_items (idb_removeItem 1 ?t) = [with_quantity smartphone 1, with_quantity laptop 2]"
    unfolding its by (simp add: with_quantity_def laptop_def smartphone_def)
  from r pre dist have "total (idb_items (idb_removeItem 1 ?t)) = total (idb_items ?t)" by blast
  then have c4: "total (idb_items (idb_removeItem 1 ?t)) = 2697"
    by (simp only: tot)
  from c1 c2 c3 c4 show ?thesis by blast
qed

end
